theory Spec2Isabelle
  imports Main "HOL-Library.Sublist" "HOL-Library.Multiset" "HOL-Library.Product_Lexorder"
begin

section \<open>Strings\<close>

text \<open>
  \<^verbatim>\<open>String.prototype.replace(pattern, replacement)\<close> with a string pattern: the first
  occurrence of the pattern, wherever it starts, is replaced; a string without the pattern
  comes back as it is. The only replacement the configuration passes is the empty string,
  so the \<^verbatim>\<open>$\<close> escapes of the replacement never apply.
\<close>

fun replace :: "string \<Rightarrow> string \<Rightarrow> string \<Rightarrow> string" where
  "replace [] pat rep = (if pat = [] then rep else [])"
| "replace (c # cs) pat rep =
     (if prefix pat (c # cs) then rep @ drop (length pat) (c # cs)
      else c # replace cs pat rep)"

section \<open>The content configuration (contentlayer.config.ts)\<close>

datatype FieldType = T_string | T_date | T_list FieldType | T_enum "string list" | T_number

record FieldDef =
  type :: FieldType
  description :: string
  required :: bool

text \<open>
  A computed field's \<^verbatim>\<open>resolve\<close> callback reads nothing of the document but
  \<^verbatim>\<open>doc._raw.flattenedPath\<close>, so it is modelled as a function of that path.
\<close>

type_synonym resolve = "string \<Rightarrow> string"

text \<open>
  The \<^verbatim>\<open>fields\<close> entry of a document type is the record field \<open>fieldDefs\<close>.
\<close>

record DocumentType =
  name :: string
  filePathPattern :: string
  contentType :: string
  fieldDefs :: "(string \<times> FieldDef) list"
  computedFields :: "(string \<times> resolve) list"

definition WritingPost_slug :: resolve where
  "WritingPost_slug flattenedPath = replace flattenedPath ''writing/'' ''''"

definition WritingPost_url :: resolve where
  "WritingPost_url flattenedPath = ''/writing/'' @ replace flattenedPath ''writing/'' ''''"

definition WritingPost :: DocumentType where
  "WritingPost = \<lparr>
     name = ''WritingPost'',
     filePathPattern = ''writing/**/*.mdx'',
     contentType = ''mdx'',
     fieldDefs = [
       (''title'', \<lparr>type = T_string, description = ''The title of the post'', required = True\<rparr>),
       (''date'', \<lparr>type = T_date, description = ''The date the post was published'', required = True\<rparr>),
       (''description'', \<lparr>type = T_string, description = ''A brief description of the post'', required = True\<rparr>),
       (''tags'', \<lparr>type = T_list T_string, description = ''Tags for categorizing the post'', required = True\<rparr>),
       (''image'', \<lparr>type = T_string, description = ''Cover image URL for the post'', required = False\<rparr>)],
     computedFields = [(''slug'', WritingPost_slug), (''url'', WritingPost_url)]\<rparr>"

definition PolyglotPost_slug :: resolve where
  "PolyglotPost_slug flattenedPath = replace flattenedPath ''polyglot/'' ''''"

definition PolyglotPost_url :: resolve where
  "PolyglotPost_url flattenedPath = ''/polyglot/'' @ replace flattenedPath ''polyglot/'' ''''"

definition PolyglotPost :: DocumentType where
  "PolyglotPost = \<lparr>
     name = ''PolyglotPost'',
     filePathPattern = ''polyglot/**/*.mdx'',
     contentType = ''mdx'',
     fieldDefs = [
       (''title'', \<lparr>type = T_string, description = ''The title of the post'', required = True\<rparr>),
       (''date'', \<lparr>type = T_date, description = ''The date the post was published'', required = True\<rparr>),
       (''description'', \<lparr>type = T_string, description = ''A brief description of the post'', required = True\<rparr>),
       (''language'', \<lparr>type = T_enum [''jp'', ''kr'', ''en'', ''es''],
          description = ''The language the post is written in'', required = True\<rparr>)],
     computedFields = [(''slug'', PolyglotPost_slug), (''url'', PolyglotPost_url)]\<rparr>"

definition Project_slug :: resolve where
  "Project_slug flattenedPath = replace flattenedPath ''projects/'' ''''"

definition Project :: DocumentType where
  "Project = \<lparr>
     name = ''Project'',
     filePathPattern = ''projects/**/*.mdx'',
     contentType = ''mdx'',
     fieldDefs = [
       (''title'', \<lparr>type = T_string, description = ''The project name'', required = True\<rparr>),
       (''description'', \<lparr>type = T_string, description = ''A brief description of the project'', required = True\<rparr>),
       (''technologies'', \<lparr>type = T_list T_string,
          description = ''Technologies and tools used in the project'', required = True\<rparr>),
       (''github'', \<lparr>type = T_string, description = ''GitHub repository URL'', required = False\<rparr>),
       (''liveUrl'', \<lparr>type = T_string, description = ''Live demo URL'', required = False\<rparr>),
       (''image'', \<lparr>type = T_string, description = ''Project screenshot or thumbnail'', required = False\<rparr>),
       (''order'', \<lparr>type = T_number, description = ''Display order (lower = first)'', required = False\<rparr>),
       (''status'', \<lparr>type = T_enum [''completed'', ''wip''],
          description = ''Project status - completed or work in progress'', required = False\<rparr>),
       (''relatedPost'', \<lparr>type = T_string,
          description = ''Slug of related blog post in Writing section'', required = False\<rparr>)],
     computedFields = [(''slug'', Project_slug)]\<rparr>"

text \<open>
  The computed part of a generated document: every declared computed field, resolved on
  the document's flattened path. A field that the document type does not declare is
  absent (\<open>None\<close>).
\<close>

definition computed :: "DocumentType \<Rightarrow> string \<Rightarrow> (string \<rightharpoonup> string)" where
  "computed dt flattenedPath =
     map_of (map (\<lambda>(field, resolve). (field, resolve flattenedPath)) (computedFields dt))"

section \<open>The generated documents (contentlayer/generated)\<close>

text \<open>
  The document types as the pages import them. The \<^verbatim>\<open>language\<close> of a PolyglotPost has the
  generated type \<^verbatim>\<open>'jp' | 'kr' | 'en' | 'es'\<close>; \<open>code\<close> is the string a language value
  is at run time. A \<^verbatim>\<open>date\<close> is the date string of the document. An optional field is an
  \<open>option\<close> (\<open>None\<close> for \<^verbatim>\<open>undefined\<close>). The display \<^verbatim>\<open>order\<close> of a project is
  taken as a whole number, as the projects are authored (\<^verbatim>\<open>order: 1\<close>).
\<close>

datatype Language = Jp | Kr | En | Es

fun code :: "Language \<Rightarrow> string" where
  "code Jp = ''jp''"
| "code Kr = ''kr''"
| "code En = ''en''"
| "code Es = ''es''"

datatype Status = completed | wip

record WritingPost =
  title :: string
  date :: string
  description :: string
  tags :: "string list"
  image :: "string option"
  slug :: string
  url :: string

record PolyglotPost =
  title :: string
  date :: string
  description :: string
  language :: Language
  slug :: string
  url :: string

record Project =
  title :: string
  description :: string
  technologies :: "string list"
  github :: "string option"
  liveUrl :: "string option"
  image :: "string option"
  order :: "int option"
  status :: "Status option"
  relatedPost :: "string option"
  slug :: string

text \<open>
  The three module-level arrays. Every page imports the same arrays, so what one page
  does to an array is what the next page finds: the arrays are the state.
\<close>

record generated =
  allWritingPosts :: "WritingPost list"
  allPolyglotPosts :: "PolyglotPost list"
  allProjects :: "Project list"

section \<open>Array operations\<close>

text \<open>
  \<^verbatim>\<open>Array.prototype.sort(compare)\<close> sorts the array it is called on, in place, and
  returns that same array. The language requires the sort to be stable; for a comparator
  that is a consistent ordering, as both comparators of the pages are, the outcome is the
  one arrangement in which no element stands before an element that compares smaller and
  elements that compare equal keep their order. The engine's algorithm is not part of the
  repository; \<open>Array_sort\<close> builds that arrangement by insertion from the right.
\<close>

fun Array_insert :: "('a \<Rightarrow> 'a \<Rightarrow> int) \<Rightarrow> 'a \<Rightarrow> 'a list \<Rightarrow> 'a list" where
  "Array_insert compare x [] = [x]"
| "Array_insert compare x (y # ys) =
     (if compare x y \<le> 0 then x # y # ys else y # Array_insert compare x ys)"

definition Array_sort :: "('a \<Rightarrow> 'a \<Rightarrow> int) \<Rightarrow> 'a list \<Rightarrow> 'a list" where
  "Array_sort compare xs = foldr (Array_insert compare) xs []"

text \<open>
  \<^verbatim>\<open>Array.from(new Set(xs))\<close>: the distinct elements of \<open>xs\<close>, each at the place of its
  first occurrence.
\<close>

fun Array_from_Set :: "'a list \<Rightarrow> 'a list \<Rightarrow> 'a list" where
  "Array_from_Set seen [] = []"
| "Array_from_Set seen (x # xs) =
     (if x \<in> set seen then Array_from_Set seen xs else x # Array_from_Set (seen @ [x]) xs)"

section \<open>The list pages\<close>

text \<open>
  In every page \<open>getTime d\<close> stands for \<^verbatim>\<open>new Date(d).getTime()\<close>, the time of the date
  string \<open>d\<close> in milliseconds; the dates of generated documents are valid dates, so the
  time is a whole number.
\<close>

subsection \<open>writing/page.tsx\<close>

definition WritingPage_compare :: "(string \<Rightarrow> int) \<Rightarrow> WritingPost \<Rightarrow> WritingPost \<Rightarrow> int" where
  "WritingPage_compare getTime a b = getTime (WritingPost.date b) - getTime (WritingPost.date a)"

definition WritingPage_sortedPosts :: "(string \<Rightarrow> int) \<Rightarrow> generated \<Rightarrow> WritingPost list \<times> generated" where
  "WritingPage_sortedPosts getTime st =
     (let sortedArray = Array_sort (WritingPage_compare getTime) (allWritingPosts st)
      in (sortedArray, st\<lparr>allWritingPosts := sortedArray\<rparr>))"

definition WritingPage_allTags :: "WritingPost list \<Rightarrow> string list" where
  "WritingPage_allTags sortedPosts = Array_from_Set [] (concat (map WritingPost.tags sortedPosts))"

definition WritingPage :: "(string \<Rightarrow> int) \<Rightarrow> generated \<Rightarrow> (WritingPost list \<times> string list) \<times> generated" where
  "WritingPage getTime st =
     (let (sortedPosts, st') = WritingPage_sortedPosts getTime st;
          allTags = WritingPage_allTags sortedPosts
      in ((sortedPosts, allTags), st'))"

subsection \<open>polyglot/page.tsx\<close>

definition PolyglotPage_compare :: "(string \<Rightarrow> int) \<Rightarrow> PolyglotPost \<Rightarrow> PolyglotPost \<Rightarrow> int" where
  "PolyglotPage_compare getTime a b = getTime (PolyglotPost.date b) - getTime (PolyglotPost.date a)"

definition PolyglotPage_sortedPosts :: "(string \<Rightarrow> int) \<Rightarrow> generated \<Rightarrow> PolyglotPost list \<times> generated" where
  "PolyglotPage_sortedPosts getTime st =
     (let sortedArray = Array_sort (PolyglotPage_compare getTime) (allPolyglotPosts st)
      in (sortedArray, st\<lparr>allPolyglotPosts := sortedArray\<rparr>))"

definition filteredPosts :: "string \<Rightarrow> PolyglotPost list \<Rightarrow> PolyglotPost list" where
  "filteredPosts selectedLanguage sortedPosts =
     (if selectedLanguage = ''all'' then sortedPosts
      else filter (\<lambda>post. code (language post) = selectedLanguage) sortedPosts)"

text \<open>
  The accumulator of \<^verbatim>\<open>reduce\<close> starts as the empty object; \<^verbatim>\<open>acc[k] || 0\<close> reads a key
  that is not there as 0. The page reads the result the same way
  (\<^verbatim>\<open>languageCounts["jp"] || 0\<close>), which is \<open>count_or_0\<close>.
\<close>

definition count_or_0 :: "(string \<rightharpoonup> nat) \<Rightarrow> string \<Rightarrow> nat" where
  "count_or_0 acc k = (case acc k of None \<Rightarrow> 0 | Some n \<Rightarrow> n)"

text \<open>The callback of \<^verbatim>\<open>reduce\<close>.\<close>

definition countLanguage :: "(string \<rightharpoonup> nat) \<Rightarrow> PolyglotPost \<Rightarrow> (string \<rightharpoonup> nat)" where
  "countLanguage acc post =
     acc(code (language post) \<mapsto> count_or_0 acc (code (language post)) + 1)"

definition languageCounts :: "PolyglotPost list \<Rightarrow> (string \<rightharpoonup> nat)" where
  "languageCounts sortedPosts = foldl countLanguage Map.empty sortedPosts"

definition PolyglotPage :: "(string \<Rightarrow> int) \<Rightarrow> string \<Rightarrow> generated
    \<Rightarrow> (PolyglotPost list \<times> PolyglotPost list \<times> (string \<rightharpoonup> nat)) \<times> generated" where
  "PolyglotPage getTime selectedLanguage st =
     (let (sortedPosts, st') = PolyglotPage_sortedPosts getTime st
      in ((sortedPosts, filteredPosts selectedLanguage sortedPosts, languageCounts sortedPosts), st'))"

subsection \<open>projects/page.tsx\<close>

definition ProjectsPage_compare :: "Project \<Rightarrow> Project \<Rightarrow> int" where
  "ProjectsPage_compare a b =
     (if order a \<noteq> None \<and> order b \<noteq> None then the (order a) - the (order b)
      else if order a \<noteq> None then - 1
      else if order b \<noteq> None then 1
      else 0)"

definition sortedProjects :: "generated \<Rightarrow> Project list \<times> generated" where
  "sortedProjects st =
     (let sortedArray = Array_sort ProjectsPage_compare (allProjects st)
      in (sortedArray, st\<lparr>allProjects := sortedArray\<rparr>))"

subsection \<open>page.tsx (home)\<close>

text \<open>
  The home page sorts with the same comparator expressions as the two list pages and keeps
  the first three posts (\<^verbatim>\<open>slice(0, 3)\<close>).
\<close>

definition recentWritingPosts :: "(string \<Rightarrow> int) \<Rightarrow> generated \<Rightarrow> WritingPost list \<times> generated" where
  "recentWritingPosts getTime st =
     (let sortedArray = Array_sort (WritingPage_compare getTime) (allWritingPosts st)
      in (take 3 sortedArray, st\<lparr>allWritingPosts := sortedArray\<rparr>))"

definition recentPolyglotPosts :: "(string \<Rightarrow> int) \<Rightarrow> generated \<Rightarrow> PolyglotPost list \<times> generated" where
  "recentPolyglotPosts getTime st =
     (let sortedArray = Array_sort (PolyglotPage_compare getTime) (allPolyglotPosts st)
      in (take 3 sortedArray, st\<lparr>allPolyglotPosts := sortedArray\<rparr>))"

definition Home :: "(string \<Rightarrow> int) \<Rightarrow> generated \<Rightarrow> (WritingPost list \<times> PolyglotPost list) \<times> generated" where
  "Home getTime st =
     (let (recentWriting, st1) = recentWritingPosts getTime st;
          (recentPolyglot, st2) = recentPolyglotPosts getTime st1
      in ((recentWriting, recentPolyglot), st2))"

section \<open>The detail pages\<close>

text \<open>
  What a detail page comes to: \<^verbatim>\<open>notFound()\<close> ends the rendering with the not-found page;
  otherwise the article of the post that was looked up is rendered (the date of a generated
  document is a valid date, so formatting it succeeds). The route parameter
  \<^verbatim>\<open>slug\<close> is written \<open>slug'\<close>.
\<close>

datatype 'post page = notFound | article 'post

subsection \<open>writing/[slug]/page.tsx\<close>

definition WritingPostPage :: "generated \<Rightarrow> string \<Rightarrow> WritingPost page" where
  "WritingPostPage st slug' =
     (case find (\<lambda>p. WritingPost.slug p = slug') (allWritingPosts st) of
        None \<Rightarrow> notFound
      | Some post \<Rightarrow> article post)"

subsection \<open>polyglot/[slug]/page.tsx\<close>

definition PolyglotPostPage :: "generated \<Rightarrow> string \<Rightarrow> PolyglotPost page" where
  "PolyglotPostPage st slug' =
     (case find (\<lambda>p. PolyglotPost.slug p = slug') (allPolyglotPosts st) of
        None \<Rightarrow> notFound
      | Some post \<Rightarrow> article post)"

section \<open>The project card (ProjectCard.tsx)\<close>

record ProjectCardProps =
  title :: string
  description :: string
  technologies :: "string list"
  github :: "string option"
  liveUrl :: "string option"
  image :: "string option"
  index :: nat
  status :: "Status option"
  relatedPost :: "string option"

text \<open>
  \<^verbatim>\<open>{value && (<Link href={f(value)} />)}\<close>: the link is rendered when the optional
  string is truthy, that is, neither \<^verbatim>\<open>undefined\<close> nor empty.
\<close>

definition when_truthy :: "string option \<Rightarrow> (string \<Rightarrow> string) \<Rightarrow> string list" where
  "when_truthy v href = (case v of None \<Rightarrow> [] | Some s \<Rightarrow> if s = [] then [] else [href s])"

definition relatedPostLink :: "ProjectCardProps \<Rightarrow> string list" where
  "relatedPostLink props = when_truthy (ProjectCardProps.relatedPost props) (\<lambda>s. ''/writing/'' @ s)"

text \<open>
  The targets of the links of a card, in the order of the markup: the repository, the live
  demo and the related post in the hover overlay, then the related post under the
  technologies.
\<close>

definition ProjectCard :: "ProjectCardProps \<Rightarrow> string list" where
  "ProjectCard props =
     when_truthy (ProjectCardProps.github props) (\<lambda>s. s)
     @ when_truthy (ProjectCardProps.liveUrl props) (\<lambda>s. s)
     @ relatedPostLink props
     @ relatedPostLink props"

text \<open>The props the projects page passes for the project at position \<open>i\<close> of the grid.\<close>

definition cardProps :: "nat \<Rightarrow> Project \<Rightarrow> ProjectCardProps" where
  "cardProps i project =
     \<lparr>ProjectCardProps.title = Project.title project,
      description = Project.description project,
      technologies = Project.technologies project,
      github = Project.github project,
      liveUrl = Project.liveUrl project,
      image = Project.image project,
      index = i,
      status = Project.status project,
      relatedPost = Project.relatedPost project\<rparr>"

definition ProjectsPage :: "generated \<Rightarrow> string list list \<times> generated" where
  "ProjectsPage st =
     (let (projects, st') = sortedProjects st
      in (map (\<lambda>(i, project). ProjectCard (cardProps i project)) (enumerate 0 projects), st'))"

section \<open>The record materializer\<close>

text \<open>
  Modelled from the spec: the value of a frontmatter key, as the metadata block of a
  content file gives it (a string, a number, a truth value or a list of values). The
  parser of the content files is the content framework's and is not part of the sources.
\<close>

datatype Value = V_string string | V_number int | V_boolean bool | V_list "Value list"

text \<open>
  Modelled from the spec: the failures of materialization, \<open>ValidationError\<close> with the field
  and the reason, and \<open>MalformedDate\<close> with the field. One entry can fail in several
  fields; a failed materialization carries the failures of all of them.
\<close>

datatype MaterializeError = ValidationError string string | MalformedDate string

text \<open>
  Modelled from the spec: the materialized record, with its kind, its raw path, its
  declared and computed fields and its body. The attribute \<^verbatim>\<open>values\<close> is written
  \<open>fieldValues\<close>.
\<close>

record ContentRecord =
  kind :: string
  rawPath :: string
  fieldValues :: "string \<rightharpoonup> Value"
  body :: string

text \<open>
  Modelled from the spec: a value's runtime type and enum membership match the type the
  schema declares for the field. A date is authored as a string; whether the string is a
  calendar date is the separate check \<open>date_parses\<close>, where \<open>parses\<close> stands for the date
  parser, which is not part of the sources.
\<close>

fun conforms :: "FieldType \<Rightarrow> Value \<Rightarrow> bool" where
  "conforms T_string (V_string s) = True"
| "conforms T_date (V_string s) = True"
| "conforms (T_enum options) (V_string s) = (s \<in> set options)"
| "conforms (T_list t) (V_list vs) = list_all (conforms t) vs"
| "conforms T_number (V_number n) = True"
| "conforms t v = False"

fun date_parses :: "(string \<Rightarrow> bool) \<Rightarrow> FieldType \<Rightarrow> Value \<Rightarrow> bool" where
  "date_parses parses T_date (V_string s) = parses s"
| "date_parses parses t v = True"

text \<open>
  Modelled from the spec: the validation of one declared field against the frontmatter.
  A required field that is missing is a \<open>ValidationError\<close> of that field; a supplied value
  whose type or enum membership does not match is a \<open>ValidationError\<close> of that field; a
  date that does not parse is a \<open>MalformedDate\<close>.
\<close>

definition check_field :: "(string \<Rightarrow> bool) \<Rightarrow> (string \<times> Value) list \<Rightarrow> string \<times> FieldDef
    \<Rightarrow> MaterializeError list" where
  "check_field parses frontmatter = (\<lambda>(field, d).
     case map_of frontmatter field of
       None \<Rightarrow> if required d then [ValidationError field ''required''] else []
     | Some v \<Rightarrow>
         if \<not> conforms (type d) v then [ValidationError field ''type'']
         else if \<not> date_parses parses (type d) v then [MalformedDate field]
         else [])"

text \<open>
  Modelled from the spec: the fields of the record. A computed field has its computed
  value, also where the frontmatter supplies a field of that name; a declared field has
  the value the frontmatter supplies.
\<close>

definition record_values :: "DocumentType \<Rightarrow> string \<Rightarrow> (string \<times> Value) list \<Rightarrow> (string \<rightharpoonup> Value)" where
  "record_values dt path frontmatter = (\<lambda>field.
     case computed dt path field of
       Some s \<Rightarrow> Some (V_string s)
     | None \<Rightarrow> if field \<in> fst ` set (fieldDefs dt) then map_of frontmatter field else None)"

text \<open>
  Modelled from the spec: \<^verbatim>\<open>materialize(kind, rawPath, frontmatter, body)\<close>, with the
  document type of the kind in place of the kind. The validation and the construction of
  the generated documents are done by the content framework that the configuration is
  written for; its code is not part of the sources.
\<close>

definition materialize :: "(string \<Rightarrow> bool) \<Rightarrow> DocumentType \<Rightarrow> string \<Rightarrow> (string \<times> Value) list
    \<Rightarrow> string \<Rightarrow> MaterializeError list + ContentRecord" where
  "materialize parses dt path frontmatter bodyText =
     (case concat (map (check_field parses frontmatter) (fieldDefs dt)) of
        [] \<Rightarrow> Inr \<lparr>kind = name dt, rawPath = path,
                  fieldValues = record_values dt path frontmatter, body = bodyText\<rparr>
      | e # es \<Rightarrow> Inl (e # es))"

text \<open>
  A declared field is present in the frontmatter with a value of the declared type (for
  an enum, one of the options; for a date, a string that parses). \<open>required_fields_ok\<close>
  says so of every required field, \<open>supplied_fields_ok\<close> of every declared field that the
  frontmatter supplies.
\<close>

definition field_ok :: "(string \<Rightarrow> bool) \<Rightarrow> (string \<times> Value) list \<Rightarrow> string \<times> FieldDef \<Rightarrow> bool" where
  "field_ok parses frontmatter = (\<lambda>(field, d).
     case map_of frontmatter field of
       None \<Rightarrow> False
     | Some v \<Rightarrow> conforms (type d) v \<and> date_parses parses (type d) v)"

definition required_fields_ok :: "(string \<Rightarrow> bool) \<Rightarrow> DocumentType \<Rightarrow> (string \<times> Value) list \<Rightarrow> bool" where
  "required_fields_ok parses dt frontmatter =
     list_all (field_ok parses frontmatter) (filter (\<lambda>(field, d). required d) (fieldDefs dt))"

definition supplied_fields_ok :: "(string \<Rightarrow> bool) \<Rightarrow> DocumentType \<Rightarrow> (string \<times> Value) list \<Rightarrow> bool" where
  "supplied_fields_ok parses dt frontmatter =
     list_all (field_ok parses frontmatter)
       (filter (\<lambda>(field, d). map_of frontmatter field \<noteq> None) (fieldDefs dt))"

definition required_names :: "DocumentType \<Rightarrow> string list" where
  "required_names dt = map fst (filter (\<lambda>(field, d). required d) (fieldDefs dt))"

section \<open>Sort keys and sample documents\<close>

text \<open>
  The order that \<open>ProjectsPage_compare\<close> decides, as a key: a project with an
  \<^verbatim>\<open>order\<close> comes before every project without one, and by its \<^verbatim>\<open>order\<close> among
  those that have one.
\<close>

definition order_key :: "Project \<Rightarrow> nat \<times> int" where
  "order_key p = (case order p of Some n \<Rightarrow> (0, n) | None \<Rightarrow> (1, 0))"

text \<open>Documents for the examples: only the fields named vary.\<close>

definition sample_writing :: "string \<Rightarrow> string \<Rightarrow> string list \<Rightarrow> WritingPost" where
  "sample_writing s d ts =
     \<lparr>WritingPost.title = s, date = d, description = [], tags = ts, image = None,
      slug = s, url = ''/writing/'' @ s\<rparr>"

definition sample_polyglot :: "string \<Rightarrow> string \<Rightarrow> Language \<Rightarrow> PolyglotPost" where
  "sample_polyglot s d l =
     \<lparr>PolyglotPost.title = s, date = d, description = [], language = l,
      slug = s, url = ''/polyglot/'' @ s\<rparr>"

definition sample_project :: "string \<Rightarrow> int option \<Rightarrow> string option \<Rightarrow> Project" where
  "sample_project s n r =
     \<lparr>Project.title = s, description = [], technologies = [], github = None, liveUrl = None,
      image = None, order = n, status = None, relatedPost = r, slug = s\<rparr>"

text \<open>The times of the dates the examples use, in milliseconds (UTC midnight).\<close>

definition sample_getTime :: "string \<Rightarrow> int" where
  "sample_getTime d =
     (if d = ''2026-01-15'' then 1768435200000
      else if d = ''2025-06-01'' then 1748736000000
      else if d = ''2025-01-15'' then 1736899200000
      else 0)"

text \<open>The frontmatter of a writing post, and a date parser that knows the sample dates.\<close>

definition sample_frontmatter :: "(string \<times> Value) list" where
  "sample_frontmatter =
     [(''title'', V_string ''My post''), (''date'', V_string ''2026-01-15''),
      (''description'', V_string ''About''), (''tags'', V_list [V_string ''programming'', V_string ''data''])]"

definition sample_parses :: "string \<Rightarrow> bool" where
  "sample_parses d = (sample_getTime d \<noteq> 0)"

section \<open>Slug and url derivation\<close>

lemma replace_prefix: "pat \<noteq> [] \<Longrightarrow> replace (pat @ rest) pat [] = rest"
  by (cases pat) simp_all

lemma replace_absent: "\<not> sublist pat s \<Longrightarrow> replace s pat [] = s"
proof (induction s)
  case Nil
  then show ?case by (cases pat) simp_all
next
  case (Cons c cs)
  from Cons.prems have np: "\<not> prefix pat (c # cs)" and ns: "\<not> sublist pat cs"
    by (simp_all add: sublist_Cons_right)
  from Cons.IH [OF ns] np show ?case by simp
qed

lemma computed_WritingPost:
  "computed WritingPost p ''slug'' = Some (WritingPost_slug p)"
  "computed WritingPost p ''url'' = Some (WritingPost_url p)"
  by (simp_all add: computed_def WritingPost_def)

lemma computed_PolyglotPost:
  "computed PolyglotPost p ''slug'' = Some (PolyglotPost_slug p)"
  "computed PolyglotPost p ''url'' = Some (PolyglotPost_url p)"
  by (simp_all add: computed_def PolyglotPost_def)

lemma computed_Project:
  "computed Project p ''slug'' = Some (Project_slug p)"
  "computed Project p ''url'' = None"
  by (simp_all add: computed_def Project_def)

text \<open>
  C1. For an entry whose raw path is the namespace segment followed by \<open>rest\<close>, the
  computed slug is \<open>rest\<close>, character for character; the computed url is
  \<open>/writing/\<close> followed by the slug for a WritingPost and \<open>/polyglot/\<close> followed by the slug
  for a PolyglotPost; a Project has a slug and no url field, whatever its path.
\<close>

theorem slug_url_derivation:
  "computed WritingPost (''writing/'' @ rest) ''slug'' = Some rest
   \<and> computed WritingPost (''writing/'' @ rest) ''url'' = Some (''/writing/'' @ rest)
   \<and> computed PolyglotPost (''polyglot/'' @ rest) ''slug'' = Some rest
   \<and> computed PolyglotPost (''polyglot/'' @ rest) ''url'' = Some (''/polyglot/'' @ rest)
   \<and> computed Project (''projects/'' @ rest) ''slug'' = Some rest
   \<and> computed Project p ''url'' = None"
proof -
  have w: "replace (''writing/'' @ rest) ''writing/'' [] = rest"
    by (rule replace_prefix) simp
  have g: "replace (''polyglot/'' @ rest) ''polyglot/'' [] = rest"
    by (rule replace_prefix) simp
  have j: "replace (''projects/'' @ rest) ''projects/'' [] = rest"
    by (rule replace_prefix) simp
  show ?thesis
    unfolding computed_WritingPost computed_PolyglotPost computed_Project
    unfolding WritingPost_slug_def WritingPost_url_def PolyglotPost_slug_def
      PolyglotPost_url_def Project_slug_def
    using w g j by simp
qed

text \<open>
  C10, as stated: deriving the slug of an already derived slug leaves it unchanged. The
  post \<^verbatim>\<open>content/writing/writing/x.mdx\<close> has the slug \<open>writing/x\<close>, and the derivation
  applied to that slug gives \<open>x\<close>.
\<close>

theorem slug_not_idempotent:
  "WritingPost_slug (WritingPost_slug ''writing/writing/x'') \<noteq> WritingPost_slug ''writing/writing/x''"
  by (simp add: WritingPost_slug_def)

text \<open>
  C10, amended. Within one namespace the derivation is injective: two raw paths under the
  same namespace segment have the same slug only if they are the same path. Applying the
  derivation to a slug that contains no occurrence of the namespace segment leaves the slug
  unchanged.
\<close>

theorem slug_injective_and_stable:
  "(WritingPost_slug (''writing/'' @ r1) = WritingPost_slug (''writing/'' @ r2)) = (r1 = r2)
   \<and> (PolyglotPost_slug (''polyglot/'' @ r1) = PolyglotPost_slug (''polyglot/'' @ r2)) = (r1 = r2)
   \<and> (Project_slug (''projects/'' @ r1) = Project_slug (''projects/'' @ r2)) = (r1 = r2)
   \<and> (\<not> sublist ''writing/'' s \<longrightarrow> WritingPost_slug s = s)
   \<and> (\<not> sublist ''polyglot/'' s \<longrightarrow> PolyglotPost_slug s = s)
   \<and> (\<not> sublist ''projects/'' s \<longrightarrow> Project_slug s = s)"
proof -
  have w: "\<And>r. replace (''writing/'' @ r) ''writing/'' [] = r"
    by (rule replace_prefix) simp
  have g: "\<And>r. replace (''polyglot/'' @ r) ''polyglot/'' [] = r"
    by (rule replace_prefix) simp
  have j: "\<And>r. replace (''projects/'' @ r) ''projects/'' [] = r"
    by (rule replace_prefix) simp
  show ?thesis
    unfolding WritingPost_slug_def PolyglotPost_slug_def Project_slug_def w g j
    by (simp add: replace_absent)
qed

theorem slug_injective_and_stable_witness:
  "WritingPost_slug (''writing/'' @ ''my-post'') \<noteq> WritingPost_slug (''writing/'' @ ''my-Post'')
   \<and> \<not> sublist ''writing/'' ''my-post''
   \<and> \<not> sublist ''polyglot/'' ''my-post''
   \<and> \<not> sublist ''projects/'' ''my-post''
   \<and> WritingPost_slug ''my-post'' = ''my-post''
   \<and> PolyglotPost_slug ''my-post'' = ''my-post''
   \<and> Project_slug ''my-post'' = ''my-post''"
proof -
  have n: "\<not> sublist ''writing/'' ''my-post''" "\<not> sublist ''polyglot/'' ''my-post''"
    "\<not> sublist ''projects/'' ''my-post''"
    by (simp_all add: sublist_code)
  from n slug_injective_and_stable [of "''my-post''" "''my-Post''" "''my-post''"]
  show ?thesis by simp
qed

section \<open>Sorting\<close>


lemma Array_insert_insort_key:
  assumes "\<And>x y. (compare x y \<le> 0) = (key x \<le> key y)"
  shows "Array_insert compare x ys = insort_key key x ys"
  by (induction ys) (simp_all add: assms)

lemma Array_sort_sort_key:
  assumes "\<And>x y. (compare x y \<le> 0) = (key x \<le> key y)"
  shows "Array_sort compare xs = sort_key key xs"
proof -
  have "Array_insert compare = insort_key key"
    by (intro ext) (rule Array_insert_insort_key [OF assms])
  then show ?thesis by (simp add: Array_sort_def sort_key_def)
qed

lemma WritingPage_compare_key:
  "(WritingPage_compare getTime a b \<le> 0) = (- getTime (WritingPost.date a) \<le> - getTime (WritingPost.date b))"
  by (simp add: WritingPage_compare_def)

lemma PolyglotPage_compare_key:
  "(PolyglotPage_compare getTime a b \<le> 0) = (- getTime (PolyglotPost.date a) \<le> - getTime (PolyglotPost.date b))"
  by (simp add: PolyglotPage_compare_def)

lemma ProjectsPage_compare_key:
  "(ProjectsPage_compare a b \<le> 0) = (order_key a \<le> order_key b)"
  by (cases "order a"; cases "order b")
     (simp_all add: ProjectsPage_compare_def order_key_def less_eq_prod_def)

lemma sorted_split:
  assumes "sorted (map key r)" and "\<And>a b. P a \<Longrightarrow> \<not> P b \<Longrightarrow> key a < key b"
  shows "r = filter P r @ filter (\<lambda>x. \<not> P x) r"
  using assms(1)
proof (induction r)
  case Nil
  then show ?case by simp
next
  case (Cons x r)
  then have IH: "r = filter P r @ filter (\<lambda>x. \<not> P x) r" and le: "\<forall>y\<in>set r. key x \<le> key y"
    by simp_all
  show ?case
  proof (cases "P x")
    case True
    with IH show ?thesis by simp
  next
    case False
    have "\<forall>y\<in>set r. \<not> P y"
    proof
      fix y assume "y \<in> set r"
      with le have "key x \<le> key y" by simp
      with assms(2) [of y x] False show "\<not> P y" by auto
    qed
    then have "filter P r = []" by (simp add: filter_empty_conv)
    with False IH show ?thesis by simp
  qed
qed


lemma sortedPosts_writing_eq:
  "fst (WritingPage_sortedPosts getTime st) = sort_key (\<lambda>p. - getTime (WritingPost.date p)) (allWritingPosts st)"
  by (simp add: WritingPage_sortedPosts_def Let_def Array_sort_sort_key [OF WritingPage_compare_key])

lemma sortedPosts_polyglot_eq:
  "fst (PolyglotPage_sortedPosts getTime st) = sort_key (\<lambda>p. - getTime (PolyglotPost.date p)) (allPolyglotPosts st)"
  by (simp add: PolyglotPage_sortedPosts_def Let_def Array_sort_sort_key [OF PolyglotPage_compare_key])

lemma sortedProjects_eq:
  "fst (sortedProjects st) = sort_key order_key (allProjects st)"
  by (simp add: sortedProjects_def Let_def Array_sort_sort_key [OF ProjectsPage_compare_key])

lemma sort_key_neg_desc:
  fixes t :: "'a \<Rightarrow> int"
  shows "sorted_wrt (\<lambda>a b. t b \<le> t a) (sort_key (\<lambda>p. - t p) xs)"
proof -
  have "sorted (map (\<lambda>p. - t p) (sort_key (\<lambda>p. - t p) xs))"
    by (rule sorted_sort_key)
  then show ?thesis by (simp add: sorted_map)
qed

lemma sort_key_neg_stable:
  fixes t :: "'a \<Rightarrow> int"
  shows "filter (\<lambda>p. t p = k) (sort_key (\<lambda>p. - t p) xs) = filter (\<lambda>p. t p = k) xs"
  using sort_key_stable [of "\<lambda>p. - t p" "- k" xs] by simp

lemma sort_key_neg_stable_date:
  fixes getTime :: "'d \<Rightarrow> int" and date :: "'a \<Rightarrow> 'd"
  shows "filter (\<lambda>p. date p = d) (sort_key (\<lambda>p. - getTime (date p)) xs) = filter (\<lambda>p. date p = d) xs"
proof -
  let ?s = "sort_key (\<lambda>p. - getTime (date p)) xs"
  have "filter (\<lambda>p. date p = d) ?s = filter (\<lambda>p. date p = d) (filter (\<lambda>p. getTime (date p) = getTime d) ?s)"
    by (simp add: conj_commute cong: conj_cong)
  also have "\<dots> = filter (\<lambda>p. date p = d) (filter (\<lambda>p. getTime (date p) = getTime d) xs)"
    using sort_key_neg_stable [of "\<lambda>p. getTime (date p)" "getTime d" xs] by simp
  also have "\<dots> = filter (\<lambda>p. date p = d) xs"
    by (simp add: conj_commute cong: conj_cong)
  finally show ?thesis .
qed

text \<open>
  C5. The chronological sort of the writing page and of the polyglot page puts the posts in
  descending order of their dates' times, most recent first, and is stable: the posts with
  one and the same \<^verbatim>\<open>date\<close> stand in the result in the order they had in the collection.
  The result holds the same posts as the collection.
\<close>

theorem chronological_sort_desc_stable:
  "sorted_wrt (\<lambda>a b. getTime (WritingPost.date b) \<le> getTime (WritingPost.date a))
       (fst (WritingPage_sortedPosts getTime st))
   \<and> filter (\<lambda>p. WritingPost.date p = d) (fst (WritingPage_sortedPosts getTime st))
       = filter (\<lambda>p. WritingPost.date p = d) (allWritingPosts st)
   \<and> mset (fst (WritingPage_sortedPosts getTime st)) = mset (allWritingPosts st)
   \<and> sorted_wrt (\<lambda>a b. getTime (PolyglotPost.date b) \<le> getTime (PolyglotPost.date a))
       (fst (PolyglotPage_sortedPosts getTime st))
   \<and> filter (\<lambda>p. PolyglotPost.date p = d') (fst (PolyglotPage_sortedPosts getTime st))
       = filter (\<lambda>p. PolyglotPost.date p = d') (allPolyglotPosts st)
   \<and> mset (fst (PolyglotPage_sortedPosts getTime st)) = mset (allPolyglotPosts st)"
  unfolding sortedPosts_writing_eq sortedPosts_polyglot_eq
  by (intro conjI sort_key_neg_desc sort_key_neg_stable_date mset_sort)

lemma order_key_lacks: "(order_key p = (1, 0)) = (order p = None)"
  by (simp add: order_key_def split: option.splits)

lemma order_key_has_lt: "order a \<noteq> None \<Longrightarrow> \<not> order b \<noteq> None \<Longrightarrow> order_key a < order_key b"
  by (auto simp: order_key_def less_prod_def split: option.splits)

lemma sorted_order_key_has:
  assumes "sorted (map order_key r)"
  shows "sorted (map (the \<circ> order) (filter (\<lambda>p. order p \<noteq> None) r))"
proof -
  have "sorted (map order_key (filter (\<lambda>p. order p \<noteq> None) r))"
    using assms by (rule sorted_filter)
  then have "sorted_wrt (\<lambda>a b. order_key a \<le> order_key b) (filter (\<lambda>p. order p \<noteq> None) r)"
    by (simp add: sorted_map)
  then have "sorted_wrt (\<lambda>a b. the (order a) \<le> the (order b)) (filter (\<lambda>p. order p \<noteq> None) r)"
    by (rule sorted_wrt_mono_rel [rotated])
       (auto simp: order_key_def less_eq_prod_def)
  then show ?thesis by (simp add: sorted_map)
qed

text \<open>
  C4. The sorted projects are the projects that have an \<^verbatim>\<open>order\<close>, in ascending
  \<^verbatim>\<open>order\<close>, followed by the projects that lack one; the projects that lack an
  \<^verbatim>\<open>order\<close> stand in the order they had in the collection; the result holds the same
  projects as the collection. Projects A, B, C with the orders 2, none, 1 are sorted to
  C, A, B.
\<close>

theorem order_field_sort:
  "fst (sortedProjects st)
       = filter (\<lambda>p. order p \<noteq> None) (fst (sortedProjects st))
         @ filter (\<lambda>p. order p = None) (fst (sortedProjects st))
   \<and> sorted (map (the \<circ> order) (filter (\<lambda>p. order p \<noteq> None) (fst (sortedProjects st))))
   \<and> filter (\<lambda>p. order p = None) (fst (sortedProjects st))
       = filter (\<lambda>p. order p = None) (allProjects st)
   \<and> mset (fst (sortedProjects st)) = mset (allProjects st)
   \<and> (order A = Some 2 \<and> order B = None \<and> order C = Some 1
        \<longrightarrow> fst (sortedProjects (st\<lparr>allProjects := [A, B, C]\<rparr>)) = [C, A, B])"
proof -
  let ?r = "sort_key order_key (allProjects st)"
  have s: "sorted (map order_key ?r)" by (rule sorted_sort_key)
  have split: "?r = filter (\<lambda>p. order p \<noteq> None) ?r @ filter (\<lambda>p. \<not> order p \<noteq> None) ?r"
    using s order_key_has_lt by (rule sorted_split)
  have asc: "sorted (map (the \<circ> order) (filter (\<lambda>p. order p \<noteq> None) ?r))"
    using s by (rule sorted_order_key_has)
  have keep: "filter (\<lambda>p. order p = None) ?r = filter (\<lambda>p. order p = None) (allProjects st)"
  proof -
    have e: "(\<lambda>y. order_key y = (1, 0)) = (\<lambda>p. order p = None)"
      by (intro ext) (rule order_key_lacks)
    show ?thesis
      using sort_key_stable [of order_key "(1, 0)" "allProjects st"] unfolding e .
  qed
  have ex: "order A = Some 2 \<and> order B = None \<and> order C = Some 1
        \<longrightarrow> fst (sortedProjects (st\<lparr>allProjects := [A, B, C]\<rparr>)) = [C, A, B]"
    by (simp add: sortedProjects_def Let_def Array_sort_def ProjectsPage_compare_def)
  from split asc keep ex show ?thesis
    unfolding sortedProjects_eq by simp
qed

theorem order_field_sort_witness:
  "order (sample_project ''A'' (Some 2) None) = Some 2
   \<and> order (sample_project ''B'' None None) = None
   \<and> order (sample_project ''C'' (Some 1) None) = Some 1
   \<and> fst (sortedProjects \<lparr>allWritingPosts = [], allPolyglotPosts = [],
        allProjects = [sample_project ''A'' (Some 2) None, sample_project ''B'' None None,
          sample_project ''C'' (Some 1) None]\<rparr>)
      = [sample_project ''C'' (Some 1) None, sample_project ''A'' (Some 2) None,
         sample_project ''B'' None None]"
  using order_field_sort [of "\<lparr>allWritingPosts = [], allPolyglotPosts = [], allProjects = []\<rparr>"
      "sample_project ''A'' (Some 2) None" "sample_project ''B'' None None"
      "sample_project ''C'' (Some 1) None"]
  by (simp add: sample_project_def)

section \<open>Language counts and language filter\<close>

lemma code_inject: "(code a = code b) = (a = b)"
  by (cases a; cases b) simp_all

lemma code_not_all: "code l \<noteq> ''all''"
  by (cases l) simp_all

lemma count_or_0_countLanguage:
  "count_or_0 (countLanguage acc post) k
   = count_or_0 acc k + (if code (language post) = k then 1 else 0)"
  by (simp add: countLanguage_def count_or_0_def)

lemma dom_countLanguage: "dom (countLanguage acc post) = insert (code (language post)) (dom acc)"
  by (simp add: countLanguage_def)

lemma languageCounts_step_count:
  "count_or_0 (foldl countLanguage acc posts) k
   = count_or_0 acc k + length (filter (\<lambda>p. code (language p) = k) posts)"
  by (induction posts arbitrary: acc) (simp_all add: count_or_0_countLanguage)

lemma languageCounts_step_dom:
  "dom (foldl countLanguage acc posts) = dom acc \<union> (\<lambda>p. code (language p)) ` set posts"
  by (induction posts arbitrary: acc) (simp_all add: dom_countLanguage)

lemma length_by_language:
  "length (filter (\<lambda>p. language p = Jp) posts) + length (filter (\<lambda>p. language p = Kr) posts)
   + length (filter (\<lambda>p. language p = En) posts) + length (filter (\<lambda>p. language p = Es) posts)
   = length posts"
proof (induction posts)
  case Nil
  then show ?case by simp
next
  case (Cons p posts)
  then show ?case by (cases "language p") simp_all
qed

text \<open>
  C2, as stated: the mapping always has the four keys jp, kr, en, es. For the empty
  collection the mapping has no key at all: the key jp is absent, not 0.
\<close>

theorem languageCounts_empty_omits_keys:
  "languageCounts [] ''jp'' = None \<and> dom (languageCounts []) \<noteq> {''jp'', ''kr'', ''en'', ''es''}"
  by (simp add: languageCounts_def)

text \<open>
  C2, amended. The keys of the mapping are the language codes that occur in the
  collection. Read with the default 0, as the page reads it, the mapping gives for each of
  the four codes the number of posts of that language, and the four readings add up to the
  size of the collection (for the empty collection, four times 0).
\<close>

theorem languageCounts_present_keys:
  "dom (languageCounts posts) = (\<lambda>p. code (language p)) ` set posts
   \<and> count_or_0 (languageCounts posts) (code l) = length (filter (\<lambda>p. language p = l) posts)
   \<and> count_or_0 (languageCounts posts) ''jp'' + count_or_0 (languageCounts posts) ''kr''
     + count_or_0 (languageCounts posts) ''en'' + count_or_0 (languageCounts posts) ''es''
     = length posts"
proof -
  have c: "\<And>l. count_or_0 (languageCounts posts) (code l) = length (filter (\<lambda>p. language p = l) posts)"
    unfolding languageCounts_def languageCounts_step_count
    by (simp add: count_or_0_def code_inject)
  have d: "dom (languageCounts posts) = (\<lambda>p. code (language p)) ` set posts"
    unfolding languageCounts_def languageCounts_step_dom by simp
  from c [of Jp] c [of Kr] c [of En] c [of Es] length_by_language [of posts]
  have "count_or_0 (languageCounts posts) ''jp'' + count_or_0 (languageCounts posts) ''kr''
     + count_or_0 (languageCounts posts) ''en'' + count_or_0 (languageCounts posts) ''es''
     = length posts" by simp
  with c d show ?thesis by simp
qed

lemma filteredPosts_code:
  "filteredPosts (code l) sortedPosts = filter (\<lambda>p. language p = l) sortedPosts"
  by (simp add: filteredPosts_def code_not_all code_inject)

text \<open>
  C6. With the selector \<open>all\<close> the filter returns the sorted collection; with the code of a
  language it returns the posts of that language, in the order they have in the sorted
  collection. So does the page, on the collection it has sorted. Posts with the languages
  jp, en, jp, es and the selector \<open>jp\<close> give the first and the third post, in that order.
\<close>

theorem language_filter:
  "filteredPosts ''all'' sortedPosts = sortedPosts
   \<and> filteredPosts (code l) sortedPosts = filter (\<lambda>p. language p = l) sortedPosts
   \<and> fst (snd (fst (PolyglotPage getTime ''all'' st))) = fst (PolyglotPage_sortedPosts getTime st)
   \<and> fst (snd (fst (PolyglotPage getTime (code l) st)))
       = filter (\<lambda>p. language p = l) (fst (PolyglotPage_sortedPosts getTime st))
   \<and> (language a = Jp \<and> language b = En \<and> language c = Jp \<and> language d = Es
        \<longrightarrow> filteredPosts ''jp'' [a, b, c, d] = [a, c])"
proof -
  have all: "\<And>xs. filteredPosts ''all'' xs = xs"
    by (simp add: filteredPosts_def)
  have ex: "language a = Jp \<and> language b = En \<and> language c = Jp \<and> language d = Es
        \<longrightarrow> filteredPosts ''jp'' [a, b, c, d] = [a, c]"
    using filteredPosts_code [of Jp "[a, b, c, d]"] by simp
  show ?thesis
    using ex by (simp add: PolyglotPage_def split_beta Let_def all filteredPosts_code)
qed

theorem language_filter_witness:
  "language (sample_polyglot ''a'' ''2026-01-15'' Jp) = Jp
   \<and> language (sample_polyglot ''b'' ''2026-01-15'' En) = En
   \<and> language (sample_polyglot ''c'' ''2025-06-01'' Jp) = Jp
   \<and> language (sample_polyglot ''d'' ''2025-01-15'' Es) = Es
   \<and> filteredPosts ''jp'' [sample_polyglot ''a'' ''2026-01-15'' Jp, sample_polyglot ''b'' ''2026-01-15'' En,
        sample_polyglot ''c'' ''2025-06-01'' Jp, sample_polyglot ''d'' ''2025-01-15'' Es]
      = [sample_polyglot ''a'' ''2026-01-15'' Jp, sample_polyglot ''c'' ''2025-06-01'' Jp]"
  using language_filter [of "[]" Jp sample_getTime
      "\<lparr>allWritingPosts = [], allPolyglotPosts = [], allProjects = []\<rparr>"
      "sample_polyglot ''a'' ''2026-01-15'' Jp" "sample_polyglot ''b'' ''2026-01-15'' En"
      "sample_polyglot ''c'' ''2025-06-01'' Jp" "sample_polyglot ''d'' ''2025-01-15'' Es"]
  by (simp add: sample_polyglot_def)

section \<open>The collections after a page\<close>

lemma sort_key_twice: "sort_key key (sort_key key xs) = sort_key key xs"
  by (rule sort_key_id_if_sorted) (rule sorted_sort_key)

lemma snd_WritingPage_sortedPosts:
  "snd (WritingPage_sortedPosts getTime st) = st\<lparr>allWritingPosts := fst (WritingPage_sortedPosts getTime st)\<rparr>"
  by (simp add: WritingPage_sortedPosts_def Let_def)

lemma snd_PolyglotPage_sortedPosts:
  "snd (PolyglotPage_sortedPosts getTime st) = st\<lparr>allPolyglotPosts := fst (PolyglotPage_sortedPosts getTime st)\<rparr>"
  by (simp add: PolyglotPage_sortedPosts_def Let_def)

lemma snd_sortedProjects:
  "snd (sortedProjects st) = st\<lparr>allProjects := fst (sortedProjects st)\<rparr>"
  by (simp add: sortedProjects_def Let_def)

lemma snd_WritingPage: "snd (WritingPage getTime st) = snd (WritingPage_sortedPosts getTime st)"
  by (simp add: WritingPage_def split_beta Let_def)

lemma snd_PolyglotPage: "snd (PolyglotPage getTime sel st) = snd (PolyglotPage_sortedPosts getTime st)"
  by (simp add: PolyglotPage_def split_beta Let_def)

lemma snd_ProjectsPage: "snd (ProjectsPage st) = snd (sortedProjects st)"
  by (simp add: ProjectsPage_def split_beta Let_def)

lemma snd_recentWritingPosts: "snd (recentWritingPosts getTime st) = snd (WritingPage_sortedPosts getTime st)"
  by (simp add: recentWritingPosts_def WritingPage_sortedPosts_def Let_def)

lemma snd_recentPolyglotPosts: "snd (recentPolyglotPosts getTime st) = snd (PolyglotPage_sortedPosts getTime st)"
  by (simp add: recentPolyglotPosts_def PolyglotPage_sortedPosts_def Let_def)

lemma snd_Home:
  "snd (Home getTime st) = snd (PolyglotPage_sortedPosts getTime (snd (WritingPage_sortedPosts getTime st)))"
  by (simp add: Home_def split_beta Let_def snd_recentWritingPosts snd_recentPolyglotPosts)

text \<open>
  C3, as stated: no operation changes the collection it is given. The chronological sort
  of the writing page, given the collection old, new, leaves the collection as new, old.
\<close>

theorem sort_changes_collection:
  "allWritingPosts (snd (WritingPage_sortedPosts sample_getTime
      \<lparr>allWritingPosts = [sample_writing ''old'' ''2025-01-15'' [], sample_writing ''new'' ''2026-01-15'' []],
       allPolyglotPosts = [], allProjects = []\<rparr>))
   = [sample_writing ''new'' ''2026-01-15'' [], sample_writing ''old'' ''2025-01-15'' []]
   \<and> [sample_writing ''new'' ''2026-01-15'' [], sample_writing ''old'' ''2025-01-15'' []]
     \<noteq> [sample_writing ''old'' ''2025-01-15'' [], sample_writing ''new'' ''2026-01-15'' []]"
  by (simp add: WritingPage_sortedPosts_def Let_def Array_sort_def WritingPage_compare_def
      sample_getTime_def sample_writing_def)

text \<open>
  C3, amended. The chronological sort and the order-field sort work in place on the
  collection of the page: after the page (the writing page, the polyglot page with any
  selector, the projects page, the home page) the collection is the sorted result, with
  the same documents as before, and the other collections are as they were. The steps that
  follow the sort (tag extraction, language filter, language counts, the first three)
  change no collection, and running the page once more changes nothing further.
\<close>

theorem sort_in_place_frame:
  "snd (WritingPage getTime st) = st\<lparr>allWritingPosts := fst (WritingPage_sortedPosts getTime st)\<rparr>
   \<and> mset (allWritingPosts (snd (WritingPage getTime st))) = mset (allWritingPosts st)
   \<and> snd (WritingPage getTime (snd (WritingPage getTime st))) = snd (WritingPage getTime st)
   \<and> snd (PolyglotPage getTime selectedLanguage st)
       = st\<lparr>allPolyglotPosts := fst (PolyglotPage_sortedPosts getTime st)\<rparr>
   \<and> mset (allPolyglotPosts (snd (PolyglotPage getTime selectedLanguage st))) = mset (allPolyglotPosts st)
   \<and> snd (PolyglotPage getTime selectedLanguage (snd (PolyglotPage getTime selectedLanguage st)))
       = snd (PolyglotPage getTime selectedLanguage st)
   \<and> snd (ProjectsPage st) = st\<lparr>allProjects := fst (sortedProjects st)\<rparr>
   \<and> mset (allProjects (snd (ProjectsPage st))) = mset (allProjects st)
   \<and> snd (ProjectsPage (snd (ProjectsPage st))) = snd (ProjectsPage st)
   \<and> snd (Home getTime st)
       = st\<lparr>allWritingPosts := fst (WritingPage_sortedPosts getTime st),
            allPolyglotPosts := fst (PolyglotPage_sortedPosts getTime st)\<rparr>"
proof -
  have w: "snd (WritingPage getTime st) = st\<lparr>allWritingPosts := fst (WritingPage_sortedPosts getTime st)\<rparr>"
    by (simp add: snd_WritingPage snd_WritingPage_sortedPosts)
  have w2: "snd (WritingPage getTime (snd (WritingPage getTime st))) = snd (WritingPage getTime st)"
    unfolding snd_WritingPage snd_WritingPage_sortedPosts sortedPosts_writing_eq
    by (simp add: sort_key_twice)
  have g: "snd (PolyglotPage getTime selectedLanguage st)
       = st\<lparr>allPolyglotPosts := fst (PolyglotPage_sortedPosts getTime st)\<rparr>"
    by (simp add: snd_PolyglotPage snd_PolyglotPage_sortedPosts)
  have g2: "snd (PolyglotPage getTime selectedLanguage (snd (PolyglotPage getTime selectedLanguage st)))
       = snd (PolyglotPage getTime selectedLanguage st)"
    unfolding snd_PolyglotPage snd_PolyglotPage_sortedPosts sortedPosts_polyglot_eq
    by (simp add: sort_key_twice)
  have j: "snd (ProjectsPage st) = st\<lparr>allProjects := fst (sortedProjects st)\<rparr>"
    by (simp add: snd_ProjectsPage snd_sortedProjects)
  have j2: "snd (ProjectsPage (snd (ProjectsPage st))) = snd (ProjectsPage st)"
    unfolding snd_ProjectsPage snd_sortedProjects sortedProjects_eq
    by (simp add: sort_key_twice)
  have h: "snd (Home getTime st)
       = st\<lparr>allWritingPosts := fst (WritingPage_sortedPosts getTime st),
            allPolyglotPosts := fst (PolyglotPage_sortedPosts getTime st)\<rparr>"
    unfolding snd_Home snd_PolyglotPage_sortedPosts snd_WritingPage_sortedPosts
      sortedPosts_polyglot_eq sortedPosts_writing_eq
    by simp
  have mw: "mset (allWritingPosts (snd (WritingPage getTime st))) = mset (allWritingPosts st)"
    unfolding w sortedPosts_writing_eq by simp
  have mg: "mset (allPolyglotPosts (snd (PolyglotPage getTime selectedLanguage st))) = mset (allPolyglotPosts st)"
    unfolding g sortedPosts_polyglot_eq by simp
  have mj: "mset (allProjects (snd (ProjectsPage st))) = mset (allProjects st)"
    unfolding j sortedProjects_eq by simp
  from w mw w2 g mg g2 j mj j2 h show ?thesis by blast
qed

section \<open>Lookup by slug\<close>

lemma find_slug_None: "(find (\<lambda>p. f p = s) xs = None) = (\<forall>p\<in>set xs. f p \<noteq> s)"
  by (auto simp: find_None_iff)

lemma find_slug_Some:
  assumes "p \<in> set xs" and "f p = s"
  shows "\<exists>q. find (\<lambda>p. f p = s) xs = Some q \<and> q \<in> set xs \<and> f q = s"
proof (cases "find (\<lambda>p. f p = s) xs")
  case None
  with assms show ?thesis by (simp add: find_None_iff)
next
  case (Some q)
  then have "q \<in> set xs \<and> f q = s"
    by (auto simp: find_Some_iff)
  with Some show ?thesis by simp
qed

lemma find_slug_distinct:
  assumes "distinct (map f xs)" and "p \<in> set xs"
  shows "find (\<lambda>q. f q = f p) xs = Some p"
proof -
  from find_slug_Some [OF assms(2) refl, of f]
  obtain q where q: "find (\<lambda>q. f q = f p) xs = Some q" "q \<in> set xs" "f q = f p"
    by blast
  from assms q(2,3) have "q = p"
    by (meson distinct_map inj_onD)
  with q(1) show ?thesis by simp
qed

text \<open>
  C7. On a detail route, a slug that no post of the collection has gives the not-found
  page. The slug of a post of the collection gives the article of a post of the collection
  with that slug; where the slugs of the collection are distinct, the article of that very
  post. The same holds for the writing route and the polyglot route.
\<close>

theorem detail_route_lookup:
  "((\<forall>q\<in>set (allWritingPosts st). WritingPost.slug q \<noteq> s) \<longrightarrow> WritingPostPage st s = notFound)
   \<and> (p \<in> set (allWritingPosts st) \<longrightarrow>
        (\<exists>q. WritingPostPage st (WritingPost.slug p) = article q \<and> q \<in> set (allWritingPosts st)
           \<and> WritingPost.slug q = WritingPost.slug p))
   \<and> (distinct (map WritingPost.slug (allWritingPosts st)) \<and> p \<in> set (allWritingPosts st) \<longrightarrow>
        WritingPostPage st (WritingPost.slug p) = article p)
   \<and> ((\<forall>q\<in>set (allPolyglotPosts st). PolyglotPost.slug q \<noteq> s) \<longrightarrow> PolyglotPostPage st s = notFound)
   \<and> (p' \<in> set (allPolyglotPosts st) \<longrightarrow>
        (\<exists>q. PolyglotPostPage st (PolyglotPost.slug p') = article q \<and> q \<in> set (allPolyglotPosts st)
           \<and> PolyglotPost.slug q = PolyglotPost.slug p'))
   \<and> (distinct (map PolyglotPost.slug (allPolyglotPosts st)) \<and> p' \<in> set (allPolyglotPosts st) \<longrightarrow>
        PolyglotPostPage st (PolyglotPost.slug p') = article p')"
proof (intro conjI impI)
  assume "\<forall>q\<in>set (allWritingPosts st). WritingPost.slug q \<noteq> s"
  then show "WritingPostPage st s = notFound"
    by (simp add: WritingPostPage_def find_slug_None [symmetric])
next
  assume "p \<in> set (allWritingPosts st)"
  then obtain q where "find (\<lambda>q. WritingPost.slug q = WritingPost.slug p) (allWritingPosts st) = Some q"
    "q \<in> set (allWritingPosts st)" "WritingPost.slug q = WritingPost.slug p"
    using find_slug_Some [of p "allWritingPosts st" WritingPost.slug "WritingPost.slug p"] by blast
  then show "\<exists>q. WritingPostPage st (WritingPost.slug p) = article q \<and> q \<in> set (allWritingPosts st)
      \<and> WritingPost.slug q = WritingPost.slug p"
    by (simp add: WritingPostPage_def)
next
  assume "distinct (map WritingPost.slug (allWritingPosts st)) \<and> p \<in> set (allWritingPosts st)"
  then show "WritingPostPage st (WritingPost.slug p) = article p"
    by (simp add: WritingPostPage_def find_slug_distinct)
next
  assume "\<forall>q\<in>set (allPolyglotPosts st). PolyglotPost.slug q \<noteq> s"
  then show "PolyglotPostPage st s = notFound"
    by (simp add: PolyglotPostPage_def find_slug_None [symmetric])
next
  assume "p' \<in> set (allPolyglotPosts st)"
  then obtain q where "find (\<lambda>q. PolyglotPost.slug q = PolyglotPost.slug p') (allPolyglotPosts st) = Some q"
    "q \<in> set (allPolyglotPosts st)" "PolyglotPost.slug q = PolyglotPost.slug p'"
    using find_slug_Some [of p' "allPolyglotPosts st" PolyglotPost.slug "PolyglotPost.slug p'"] by blast
  then show "\<exists>q. PolyglotPostPage st (PolyglotPost.slug p') = article q \<and> q \<in> set (allPolyglotPosts st)
      \<and> PolyglotPost.slug q = PolyglotPost.slug p'"
    by (simp add: PolyglotPostPage_def)
next
  assume "distinct (map PolyglotPost.slug (allPolyglotPosts st)) \<and> p' \<in> set (allPolyglotPosts st)"
  then show "PolyglotPostPage st (PolyglotPost.slug p') = article p'"
    by (simp add: PolyglotPostPage_def find_slug_distinct)
qed

theorem detail_route_lookup_witness:
  "''missing'' \<notin> WritingPost.slug ` set [sample_writing ''my-post'' ''2026-01-15'' [], sample_writing ''other'' ''2025-06-01'' []]
   \<and> ''missing'' \<notin> PolyglotPost.slug ` set [sample_polyglot ''hola'' ''2025-01-15'' Es]
   \<and> WritingPostPage
        \<lparr>allWritingPosts = [sample_writing ''my-post'' ''2026-01-15'' [], sample_writing ''other'' ''2025-06-01'' []],
         allPolyglotPosts = [sample_polyglot ''hola'' ''2025-01-15'' Es], allProjects = []\<rparr> ''missing'' = notFound
   \<and> WritingPostPage
        \<lparr>allWritingPosts = [sample_writing ''my-post'' ''2026-01-15'' [], sample_writing ''other'' ''2025-06-01'' []],
         allPolyglotPosts = [sample_polyglot ''hola'' ''2025-01-15'' Es], allProjects = []\<rparr> ''other''
      = article (sample_writing ''other'' ''2025-06-01'' [])
   \<and> PolyglotPostPage
        \<lparr>allWritingPosts = [sample_writing ''my-post'' ''2026-01-15'' [], sample_writing ''other'' ''2025-06-01'' []],
         allPolyglotPosts = [sample_polyglot ''hola'' ''2025-01-15'' Es], allProjects = []\<rparr> ''missing'' = notFound
   \<and> PolyglotPostPage
        \<lparr>allWritingPosts = [sample_writing ''my-post'' ''2026-01-15'' [], sample_writing ''other'' ''2025-06-01'' []],
         allPolyglotPosts = [sample_polyglot ''hola'' ''2025-01-15'' Es], allProjects = []\<rparr> ''hola''
      = article (sample_polyglot ''hola'' ''2025-01-15'' Es)"
  using detail_route_lookup [of
      "\<lparr>allWritingPosts = [sample_writing ''my-post'' ''2026-01-15'' [], sample_writing ''other'' ''2025-06-01'' []],
        allPolyglotPosts = [sample_polyglot ''hola'' ''2025-01-15'' Es], allProjects = []\<rparr>"
      "''missing''" "sample_writing ''other'' ''2025-06-01'' []" "sample_polyglot ''hola'' ''2025-01-15'' Es"]
  by (simp add: sample_writing_def sample_polyglot_def)

section \<open>Related posts of projects\<close>

lemma relatedPost_cardProps:
  "ProjectCardProps.relatedPost (cardProps i project) = Project.relatedPost project"
  by (simp add: cardProps_def)

text \<open>
  C8, as stated: a project whose \<^verbatim>\<open>relatedPost\<close> names no existing post gets no
  related-post link. The project with \<^verbatim>\<open>relatedPost\<close> \<open>ghost\<close>, in a site whose only post
  is \<open>my-post\<close>, gets both related-post links, to \<open>/writing/ghost\<close>.
\<close>

theorem dangling_relatedPost_is_linked:
  "Project.relatedPost (sample_project ''calc'' (Some 1) (Some ''ghost'')) = Some ''ghost''
   \<and> ''ghost'' \<notin> WritingPost.slug ` set (allWritingPosts
        \<lparr>allWritingPosts = [sample_writing ''my-post'' ''2026-01-15'' []], allPolyglotPosts = [],
         allProjects = [sample_project ''calc'' (Some 1) (Some ''ghost'')]\<rparr>)
   \<and> fst (ProjectsPage
        \<lparr>allWritingPosts = [sample_writing ''my-post'' ''2026-01-15'' []], allPolyglotPosts = [],
         allProjects = [sample_project ''calc'' (Some 1) (Some ''ghost'')]\<rparr>)
      = [[''/writing/ghost'', ''/writing/ghost'']]
   \<and> relatedPostLink (cardProps 0 (sample_project ''calc'' (Some 1) (Some ''ghost''))) \<noteq> []"
  by (simp add: ProjectsPage_def sortedProjects_def Let_def Array_sort_def enumerate_eq_zip
      ProjectCard_def relatedPostLink_def when_truthy_def cardProps_def sample_project_def
      sample_writing_def)

text \<open>
  C8, amended. The card decides on the related-post link by the \<^verbatim>\<open>relatedPost\<close> value
  alone: without the value, or with the empty string, the link is omitted; with a
  non-empty slug the link to \<open>/writing/\<close> followed by the slug is rendered, whether or not
  a post has that slug. A link to a slug that no post has leads to the not-found page of
  the writing route, not to a failure.
\<close>

theorem relatedPost_link_by_presence:
  "relatedPostLink (cardProps i (project\<lparr>Project.relatedPost := None\<rparr>)) = []
   \<and> relatedPostLink (cardProps i (project\<lparr>Project.relatedPost := Some []\<rparr>)) = []
   \<and> (s \<noteq> [] \<longrightarrow>
        relatedPostLink (cardProps i (project\<lparr>Project.relatedPost := Some s\<rparr>)) = [''/writing/'' @ s])
   \<and> ((\<forall>q\<in>set (allWritingPosts st). WritingPost.slug q \<noteq> s) \<longrightarrow> WritingPostPage st s = notFound)"
  by (simp add: relatedPostLink_def when_truthy_def relatedPost_cardProps WritingPostPage_def
      find_slug_None [symmetric])

theorem relatedPost_link_by_presence_witness:
  "''ghost'' \<noteq> []
   \<and> ''ghost'' \<notin> WritingPost.slug ` set [sample_writing ''my-post'' ''2026-01-15'' []]
   \<and> relatedPostLink (cardProps 0 (sample_project ''calc'' (Some 1) (Some ''ghost''))) = [''/writing/ghost'']
   \<and> WritingPostPage \<lparr>allWritingPosts = [sample_writing ''my-post'' ''2026-01-15'' []],
        allPolyglotPosts = [], allProjects = []\<rparr> ''ghost'' = notFound"
  using relatedPost_link_by_presence [of 0 "sample_project ''calc'' (Some 1) None" "''ghost''"
      "\<lparr>allWritingPosts = [sample_writing ''my-post'' ''2026-01-15'' []],
        allPolyglotPosts = [], allProjects = []\<rparr>"]
  by (simp add: sample_project_def sample_writing_def)

section \<open>Materialization\<close>

lemma check_field_Nil:
  "(check_field parses fm (field, d) = []) =
     (case map_of fm field of None \<Rightarrow> \<not> required d
      | Some v \<Rightarrow> conforms (type d) v \<and> date_parses parses (type d) v)"
  by (simp add: check_field_def split: option.splits)

lemma check_all_Nil:
  assumes "required_fields_ok parses dt fm" and "supplied_fields_ok parses dt fm"
  shows "concat (map (check_field parses fm) (fieldDefs dt)) = []"
proof -
  have "check_field parses fm fd = []" if "fd \<in> set (fieldDefs dt)" for fd
  proof -
    obtain field d where fd: "fd = (field, d)" by (cases fd)
    show ?thesis
    proof (cases "map_of fm field")
      case None
      have "\<not> required d"
      proof
        assume "required d"
        with that fd assms(1) have "field_ok parses fm (field, d)"
          by (auto simp: required_fields_ok_def list_all_iff)
        with None show False by (simp add: field_ok_def)
      qed
      with None show ?thesis by (simp add: fd check_field_Nil)
    next
      case (Some v)
      with that fd assms(2) have "field_ok parses fm (field, d)"
        by (auto simp: supplied_fields_ok_def list_all_iff)
      with Some show ?thesis by (simp add: fd check_field_Nil field_ok_def)
    qed
  qed
  then show ?thesis by simp
qed

lemma missing_required_reported:
  assumes "(field, d) \<in> set (fieldDefs dt)" and "required d" and "map_of fm field = None"
  shows "ValidationError field ''required'' \<in> set (concat (map (check_field parses fm) (fieldDefs dt)))"
proof -
  from assms(2,3) have "ValidationError field ''required'' \<in> set (check_field parses fm (field, d))"
    by (simp add: check_field_def)
  with assms(1) show ?thesis by auto
qed

lemma record_values_required:
  assumes "required_fields_ok parses dt fm" and "field \<in> set (required_names dt)"
  shows "record_values dt path fm field \<noteq> None"
proof -
  from assms(2) obtain d where d: "(field, d) \<in> set (fieldDefs dt)" "required d"
    by (auto simp: required_names_def)
  with assms(1) have "field_ok parses fm (field, d)"
    by (auto simp: required_fields_ok_def list_all_iff)
  then have "map_of fm field \<noteq> None"
    by (auto simp: field_ok_def split: option.splits)
  moreover from d(1) have "field \<in> fst ` set (fieldDefs dt)" by force
  ultimately show ?thesis
    by (simp add: record_values_def split: option.splits)
qed

text \<open>
  C9, as stated: an entry whose required fields are all present, of the declared type and
  within the declared options materializes. The writing post with the four required
  fields in order and the optional \<^verbatim>\<open>image\<close> given as the number 5 fails with a
  \<open>ValidationError\<close> of \<open>image\<close>.
\<close>

theorem optional_field_fails_materialize:
  "required_fields_ok sample_parses WritingPost (sample_frontmatter @ [(''image'', V_number 5)])
   \<and> materialize sample_parses WritingPost ''writing/my-post''
        (sample_frontmatter @ [(''image'', V_number 5)]) ''text''
      = Inl [ValidationError ''image'' ''type'']"
  by (simp add: required_fields_ok_def field_ok_def materialize_def check_field_def
      WritingPost_def sample_frontmatter_def sample_parses_def sample_getTime_def)

text \<open>
  C9, amended. An entry whose required fields are all present and whose supplied declared
  fields, required or optional, are all of the declared type (enum values within the
  options, dates that parse) materializes, and the record has every required field. An
  entry that lacks a required field fails, and a \<open>ValidationError\<close> naming that field is
  among its failures. The required fields of the three kinds are those of the
  configuration.
\<close>

theorem materialize_valid_or_missing:
  "(required_fields_ok parses dt frontmatter \<and> supplied_fields_ok parses dt frontmatter \<longrightarrow>
      (\<exists>r. materialize parses dt path frontmatter bodyText = Inr r
         \<and> (\<forall>field\<in>set (required_names dt). fieldValues r field \<noteq> None)))
   \<and> ((field, d) \<in> set (fieldDefs dt) \<and> required d \<and> map_of frontmatter' field = None \<longrightarrow>
      (\<exists>errors. materialize parses dt path frontmatter' bodyText = Inl errors
         \<and> ValidationError field ''required'' \<in> set errors))
   \<and> required_names WritingPost = [''title'', ''date'', ''description'', ''tags'']
   \<and> required_names PolyglotPost = [''title'', ''date'', ''description'', ''language'']
   \<and> required_names Project = [''title'', ''description'', ''technologies'']"
proof (intro conjI impI)
  assume a: "required_fields_ok parses dt frontmatter \<and> supplied_fields_ok parses dt frontmatter"
  then have e: "concat (map (check_field parses frontmatter) (fieldDefs dt)) = []"
    by (simp add: check_all_Nil)
  have "materialize parses dt path frontmatter bodyText
      = Inr \<lparr>kind = name dt, rawPath = path, fieldValues = record_values dt path frontmatter, body = bodyText\<rparr>"
    unfolding materialize_def e by simp
  moreover from a have "\<forall>field\<in>set (required_names dt). record_values dt path frontmatter field \<noteq> None"
    using record_values_required by blast
  ultimately show "\<exists>r. materialize parses dt path frontmatter bodyText = Inr r
         \<and> (\<forall>field\<in>set (required_names dt). fieldValues r field \<noteq> None)"
    by simp
next
  assume "(field, d) \<in> set (fieldDefs dt) \<and> required d \<and> map_of frontmatter' field = None"
  then have m: "ValidationError field ''required''
      \<in> set (concat (map (check_field parses frontmatter') (fieldDefs dt)))"
    using missing_required_reported [of field d dt frontmatter' parses] by blast
  show "\<exists>errors. materialize parses dt path frontmatter' bodyText = Inl errors
         \<and> ValidationError field ''required'' \<in> set errors"
  proof (cases "concat (map (check_field parses frontmatter') (fieldDefs dt))")
    case Nil
    with m show ?thesis by simp
  next
    case (Cons e es)
    from m show ?thesis unfolding materialize_def Cons by simp
  qed
next
  show "required_names WritingPost = [''title'', ''date'', ''description'', ''tags'']"
    by (simp add: required_names_def WritingPost_def)
next
  show "required_names PolyglotPost = [''title'', ''date'', ''description'', ''language'']"
    by (simp add: required_names_def PolyglotPost_def)
next
  show "required_names Project = [''title'', ''description'', ''technologies'']"
    by (simp add: required_names_def Project_def)
qed

theorem materialize_valid_or_missing_witness:
  "required_fields_ok sample_parses WritingPost sample_frontmatter
   \<and> supplied_fields_ok sample_parses WritingPost sample_frontmatter
   \<and> (\<exists>r. materialize sample_parses WritingPost ''writing/my-post'' sample_frontmatter ''text'' = Inr r
        \<and> fieldValues r ''title'' = Some (V_string ''My post'')
        \<and> fieldValues r ''slug'' = Some (V_string ''my-post''))
   \<and> map_of (tl sample_frontmatter) ''title'' = None
   \<and> (\<exists>errors. materialize sample_parses WritingPost ''writing/my-post'' (tl sample_frontmatter) ''text''
          = Inl errors
        \<and> ValidationError ''title'' ''required'' \<in> set errors)"
  using materialize_valid_or_missing [of sample_parses WritingPost sample_frontmatter
      "''writing/my-post''" "''text''" "''title''"
      "\<lparr>type = T_string, description = ''The title of the post'', required = True\<rparr>"
      "tl sample_frontmatter"]
  by (simp add: required_fields_ok_def supplied_fields_ok_def field_ok_def materialize_def
      check_field_def record_values_def computed_def WritingPost_def WritingPost_slug_def
      WritingPost_url_def sample_frontmatter_def sample_parses_def sample_getTime_def)

end
